theory Spec2Isabelle
  imports Main "HOL-Library.Word"
begin

section \<open>Python values as the checker sees them\<close>

text \<open>
  The checker \<^verbatim>\<open>checks/open_api_check.py\<close> walks whatever \<^verbatim>\<open>json.load\<close> hands
  it and never tests a type, so the embedding keeps Python's dynamic typing: every
  operation is defined on every JSON value and the \<^verbatim>\<open>TypeError\<close>,
  \<^verbatim>\<open>KeyError\<close>, \<^verbatim>\<open>AttributeError\<close> or \<^verbatim>\<open>IndexError\<close> that Python raises is a
  value of the model.

  A Python \<^verbatim>\<open>str\<close> is a sequence of Unicode code points; \<open>S\<close> turns an ASCII
  literal of the source into that representation.
\<close>

type_synonym pystr = "nat list"

definition S :: "string \<Rightarrow> pystr" where
  "S s = map of_char s"

text \<open>
  What \<^verbatim>\<open>json.load\<close> returns: \<^verbatim>\<open>None\<close>, \<^verbatim>\<open>bool\<close>, \<^verbatim>\<open>int\<close>, \<^verbatim>\<open>float\<close> (an IEEE
  double, kept as its 64 bits), \<^verbatim>\<open>str\<close>, \<^verbatim>\<open>list\<close> and \<^verbatim>\<open>dict\<close>. A \<^verbatim>\<open>dict\<close> is
  an association list in insertion order, looked up with \<open>map_of\<close>; the dictionaries
  Python builds are the lists with distinct keys.
\<close>

datatype json =
    JNull
  | JBool bool
  | JInt int
  | JFloat "64 word"
  | JStr pystr
  | JArr "json list"
  | JObj "(pystr \<times> json) list"

datatype py_error =
    KeyError json
  | TypeError
  | AttributeError
  | IndexError
  | ValueError pystr
  | OSError

subsection \<open>Printing and raising\<close>

text \<open>
  A computation yields the lines it printed, in order, and either the exception that
  left it or its value. Standard output is taken to accept every string.
\<close>

type_synonym 'a io = "pystr list \<times> (py_error + 'a)"

definition outp :: "'a io \<Rightarrow> pystr list" where
  "outp c = fst c"

definition res :: "'a io \<Rightarrow> py_error + 'a" where
  "res c = snd c"

definition io_return :: "'a \<Rightarrow> 'a io" where
  "io_return x = ([], Inr x)"

definition io_raise :: "py_error \<Rightarrow> 'a io" where
  "io_raise e = ([], Inl e)"

definition io_lift :: "py_error + 'a \<Rightarrow> 'a io" where
  "io_lift r = ([], r)"

definition py_print :: "pystr \<Rightarrow> unit io" where
  "py_print s = ([s], Inr ())"

definition io_bind :: "'a io \<Rightarrow> ('a \<Rightarrow> 'b io) \<Rightarrow> 'b io" where
  "io_bind c f =
     (case c of
        (out, Inl e) \<Rightarrow> (out, Inl e)
      | (out, Inr x) \<Rightarrow> (case f x of (out', r) \<Rightarrow> (out @ out', r)))"

text \<open>A \<^verbatim>\<open>for\<close> loop that threads the accumulator \<^verbatim>\<open>failures\<close> through its body.\<close>

fun for_loop :: "'a list \<Rightarrow> ('a \<Rightarrow> int \<Rightarrow> int io) \<Rightarrow> int \<Rightarrow> int io" where
  "for_loop [] body failures = io_return failures"
| "for_loop (x # xs) body failures = io_bind (body x failures) (for_loop xs body)"

subsection \<open>The operations of Python the checker uses\<close>

text \<open>
  \<^verbatim>\<open>str.isspace\<close> of one code point (CPython's table of whitespace characters) and
  \<^verbatim>\<open>str.strip()\<close>.
\<close>

definition isspace :: "nat \<Rightarrow> bool" where
  "isspace c =
     (c \<in> set [9, 10, 11, 12, 13, 28, 29, 30, 31, 32, 133, 160,
                5760, 8232, 8233, 8239, 8287, 12288]
      \<or> (8192 \<le> c \<and> c \<le> 8202))"

definition strip :: "pystr \<Rightarrow> pystr" where
  "strip s = rev (dropWhile isspace (rev (dropWhile isspace s)))"

text \<open>\<^verbatim>\<open>sub in s\<close> for two strings: \<open>sub\<close> occurs in \<open>s\<close> as a contiguous run.\<close>

fun is_substring :: "pystr \<Rightarrow> pystr \<Rightarrow> bool" where
  "is_substring sub [] = (sub = [])"
| "is_substring sub (c # cs) = (take (length sub) (c # cs) = sub \<or> is_substring sub cs)"

text \<open>
  \<^verbatim>\<open>key in container\<close> for a string \<open>key\<close>: membership among the keys of a
  \<^verbatim>\<open>dict\<close>, among the elements of a \<^verbatim>\<open>list\<close>, the substring test on a \<^verbatim>\<open>str\<close>, and
  a \<^verbatim>\<open>TypeError\<close> on everything else.
\<close>

fun py_in :: "pystr \<Rightarrow> json \<Rightarrow> bool io" where
  "py_in key (JObj kvs) = io_return (key \<in> set (map fst kvs))"
| "py_in key (JArr xs) = io_return (JStr key \<in> set xs)"
| "py_in key (JStr s) = io_return (is_substring key s)"
| "py_in key _ = io_raise TypeError"

text \<open>Indexing a sequence with an integer: negative indices count from the end.\<close>

definition py_index :: "'a list \<Rightarrow> int \<Rightarrow> 'a io" where
  "py_index xs i =
     (let n = int (length xs); j = (if i < 0 then i + n else i)
      in if 0 \<le> j \<and> j < n then io_return (xs ! nat j) else io_raise IndexError)"

text \<open>
  \<^verbatim>\<open>container[key]\<close>. A \<^verbatim>\<open>dict\<close> raises \<^verbatim>\<open>KeyError\<close> on a missing key and
  \<^verbatim>\<open>TypeError\<close> on an unhashable one; a \<^verbatim>\<open>list\<close> or \<^verbatim>\<open>str\<close> takes integers
  (\<^verbatim>\<open>bool\<close> is a subclass of \<^verbatim>\<open>int\<close>) and raises \<^verbatim>\<open>TypeError\<close> on any other
  key; nothing else is subscriptable.
\<close>

fun py_getitem :: "json \<Rightarrow> json \<Rightarrow> json io" where
  "py_getitem (JObj kvs) (JStr k) =
     (case map_of kvs k of None \<Rightarrow> io_raise (KeyError (JStr k)) | Some v \<Rightarrow> io_return v)"
| "py_getitem (JObj kvs) (JArr ys) = io_raise TypeError"
| "py_getitem (JObj kvs) (JObj ys) = io_raise TypeError"
| "py_getitem (JObj kvs) k = io_raise (KeyError k)"
| "py_getitem (JArr xs) (JInt i) = py_index xs i"
| "py_getitem (JArr xs) (JBool b) = py_index xs (if b then 1 else 0)"
| "py_getitem (JArr xs) k = io_raise TypeError"
| "py_getitem (JStr s) (JInt i) = io_bind (py_index s i) (\<lambda>c. io_return (JStr [c]))"
| "py_getitem (JStr s) (JBool b) =
     io_bind (py_index s (if b then 1 else 0)) (\<lambda>c. io_return (JStr [c]))"
| "py_getitem (JStr s) k = io_raise TypeError"
| "py_getitem c k = io_raise TypeError"

text \<open>
  What \<^verbatim>\<open>for x in container\<close> runs over: the keys of a \<^verbatim>\<open>dict\<close>, the elements of a
  \<^verbatim>\<open>list\<close>, the one-character strings of a \<^verbatim>\<open>str\<close>.
\<close>

fun py_iter :: "json \<Rightarrow> json list io" where
  "py_iter (JObj kvs) = io_return (map (\<lambda>kv. JStr (fst kv)) kvs)"
| "py_iter (JArr xs) = io_return xs"
| "py_iter (JStr s) = io_return (map (\<lambda>c. JStr [c]) s)"
| "py_iter _ = io_raise TypeError"

text \<open>\<^verbatim>\<open>s + x\<close> for a string \<open>s\<close>: only a \<^verbatim>\<open>str\<close> can be appended.\<close>

fun py_add :: "pystr \<Rightarrow> json \<Rightarrow> pystr io" where
  "py_add s (JStr t) = io_return (s @ t)"
| "py_add s _ = io_raise TypeError"

text \<open>\<^verbatim>\<open>x.strip()\<close>: only \<^verbatim>\<open>str\<close> has the method.\<close>

fun py_strip :: "json \<Rightarrow> pystr io" where
  "py_strip (JStr s) = io_return (strip s)"
| "py_strip _ = io_raise AttributeError"

text \<open>\<^verbatim>\<open>str(n)\<close> for an integer, as \<^verbatim>\<open>"{}".format(n)\<close> prints it.\<close>

fun digits :: "nat \<Rightarrow> pystr" where
  "digits n = (if n < 10 then [48 + n] else digits (n div 10) @ [48 + n mod 10])"

declare digits.simps [simp del]

definition str_int :: "int \<Rightarrow> pystr" where
  "str_int i = (if i < 0 then 45 # digits (nat (- i)) else digits (nat i))"

section \<open>The checker\<close>

text \<open>
  The functions of \<^verbatim>\<open>checks/open_api_check.py\<close>, statement by statement. A
  failure count is a Python \<^verbatim>\<open>int\<close>. The flags \<^verbatim>\<open>verbose\<close> and \<^verbatim>\<open>nocolors\<close> come
  from \<^verbatim>\<open>argparse\<close> with \<^verbatim>\<open>store_true\<close> and the default \<^verbatim>\<open>None\<close>, so each is
  \<^verbatim>\<open>None\<close> or \<^verbatim>\<open>True\<close>: a \<open>bool option\<close>. \<^verbatim>\<open>main\<close> only parses the flags, calls
  \<^verbatim>\<open>check_openapi_json\<close> and \<^verbatim>\<open>display_report\<close> and exits with 1 when there are
  failures.
\<close>

subsection \<open>Attribute checker and info node\<close>

text \<open>\<^verbatim>\<open>empty_attribute\<close> (lines 41 to 43) and \<^verbatim>\<open>check_info_node\<close> (lines 46 to 77).\<close>

definition empty_attribute :: "json \<Rightarrow> pystr \<Rightarrow> bool io" where
  "empty_attribute node selector =
     io_bind (py_getitem node (JStr selector)) (\<lambda>v.
     io_bind (py_strip v) (\<lambda>s.
     io_return (s = [])))"

definition check_info_node :: "json \<Rightarrow> bool option \<Rightarrow> int io" where
  "check_info_node obj verbose =
     io_bind (if verbose \<noteq> None then py_print (S ''    checking info node'')
              else io_return ()) (\<lambda>_.
     if obj = JNull then
       io_bind (py_print (S ''Empty object has been deserialized'')) (\<lambda>_. io_return 1)
     else
       io_bind (py_in (S ''info'') obj) (\<lambda>present.
       if \<not> present then
         io_bind (py_print (S ''Info node can't be found'')) (\<lambda>_. io_return 1)
       else
         io_bind (py_getitem obj (JStr (S ''info''))) (\<lambda>info.
         io_bind (py_in (S ''description'') info) (\<lambda>described.
         if \<not> described then
           io_bind (py_print (S ''No description provided for the whole file''))
             (\<lambda>_. io_return 1)
         else
           io_bind (empty_attribute info (S ''description'')) (\<lambda>blank.
           if blank then
             io_bind (py_print (S ''Empty description provided for the whole file''))
               (\<lambda>_. io_return 1)
           else io_return 0)))))"

subsection \<open>Method-level validators\<close>

text \<open>
  \<^verbatim>\<open>check_description_for_method\<close> (lines 80 to 97),
  \<^verbatim>\<open>check_description_for_method_parameters\<close> (lines 100 to 124) and
  \<^verbatim>\<open>check_description_for_method_responses\<close> (lines 127 to 151). \<^verbatim>\<open>path\<close> and
  \<^verbatim>\<open>method\<close> are whatever the loops of the driver hand over: strings when they are
  keys of mappings, and then the diagnostics can be built.
\<close>

definition check_description_for_method :: "json \<Rightarrow> json \<Rightarrow> json \<Rightarrow> int io" where
  "check_description_for_method path method m =
     io_bind (py_in (S ''description'') m) (\<lambda>described.
     if \<not> described then
       io_bind (py_add (S ''            No description found for endpoint `'') path) (\<lambda>s1.
       io_bind (py_add (s1 @ S ''` and method `'') method) (\<lambda>s2.
       io_bind (py_print (s2 @ S ''`'')) (\<lambda>_.
       io_return 1)))
     else
       io_bind (empty_attribute m (S ''description'')) (\<lambda>blank.
       if blank then
         io_bind (py_add (S ''            Empty description found for endpoint `'') path) (\<lambda>s1.
         io_bind (py_add (s1 @ S ''` and method `'') method) (\<lambda>s2.
         io_bind (py_print (s2 @ S ''`'')) (\<lambda>_.
         io_return 1)))
       else io_return 0))"

text \<open>
  The body of the loop over \<^verbatim>\<open>parameters\<close>. The diagnostic is built left to right:
  \<^verbatim>\<open>path\<close> and \<^verbatim>\<open>method\<close> are appended before \<^verbatim>\<open>parameter["name"]\<close> is looked up.
\<close>

definition parameter_body :: "json \<Rightarrow> json \<Rightarrow> json \<Rightarrow> int \<Rightarrow> int io" where
  "parameter_body path method parameter failures =
     io_bind (py_in (S ''description'') parameter) (\<lambda>described.
     if \<not> described then
       io_bind (py_add (S ''            No description found for endpoint `'') path) (\<lambda>s1.
       io_bind (py_add (s1 @ S ''` method `'') method) (\<lambda>s2.
       io_bind (py_getitem parameter (JStr (S ''name''))) (\<lambda>n.
       io_bind (py_add (s2 @ S ''` and parameter `'') n) (\<lambda>s3.
       io_bind (py_print (s3 @ S ''`'')) (\<lambda>_.
       io_return (failures + 1))))))
     else
       io_bind (empty_attribute parameter (S ''description'')) (\<lambda>blank.
       if blank then
         io_bind (py_add (S ''            Empty description found for endpoint `'') path) (\<lambda>s1.
         io_bind (py_add (s1 @ S ''` method `'') method) (\<lambda>s2.
         io_bind (py_getitem parameter (JStr (S ''name''))) (\<lambda>n.
         io_bind (py_add (s2 @ S ''` and parameter `'') n) (\<lambda>s3.
         io_bind (py_print (s3 @ S ''`'')) (\<lambda>_.
         io_return (failures + 1))))))
       else io_return failures))"

definition check_description_for_method_parameters :: "json \<Rightarrow> json \<Rightarrow> json \<Rightarrow> int io" where
  "check_description_for_method_parameters path method m =
     io_bind (py_in (S ''parameters'') m) (\<lambda>present.
     if present then
       io_bind (py_getitem m (JStr (S ''parameters''))) (\<lambda>parameters.
       io_bind (py_iter parameters) (\<lambda>ps.
       for_loop ps (parameter_body path method) 0))
     else io_return 0)"

text \<open>The body of the loop over the keys of \<^verbatim>\<open>responses\<close>.\<close>

definition response_body :: "json \<Rightarrow> json \<Rightarrow> json \<Rightarrow> json \<Rightarrow> int \<Rightarrow> int io" where
  "response_body path method responses response failures =
     io_bind (py_getitem responses response) (\<lambda>r.
     io_bind (py_in (S ''description'') r) (\<lambda>described.
     if \<not> described then
       io_bind (py_add (S ''            No description found for endpoint `'') path) (\<lambda>s1.
       io_bind (py_add (s1 @ S ''` method `'') method) (\<lambda>s2.
       io_bind (py_add (s2 @ S ''` and response `'') response) (\<lambda>s3.
       io_bind (py_print (s3 @ S ''`'')) (\<lambda>_.
       io_return (failures + 1)))))
     else
       io_bind (empty_attribute r (S ''description'')) (\<lambda>blank.
       if blank then
         io_bind (py_add (S ''            Empty description found for endpoint `'') path) (\<lambda>s1.
         io_bind (py_add (s1 @ S ''` method `'') method) (\<lambda>s2.
         io_bind (py_add (s2 @ S ''` and response `'') response) (\<lambda>s3.
         io_bind (py_print (s3 @ S ''`'')) (\<lambda>_.
         io_return (failures + 1)))))
       else io_return failures)))"

definition check_description_for_method_responses :: "json \<Rightarrow> json \<Rightarrow> json \<Rightarrow> int io" where
  "check_description_for_method_responses path method m =
     io_bind (py_in (S ''responses'') m) (\<lambda>present.
     if present then
       io_bind (py_getitem m (JStr (S ''responses''))) (\<lambda>responses.
       io_bind (py_iter responses) (\<lambda>rs.
       for_loop rs (response_body path method responses) 0))
     else io_return 0)"

subsection \<open>Traversal driver\<close>

text \<open>
  \<^verbatim>\<open>check_method\<close> (lines 154 to 168), \<^verbatim>\<open>check_path\<close> (lines 171 to 182) and
  \<^verbatim>\<open>check_all_paths\<close> (lines 185 to 198).
\<close>

definition check_method :: "json \<Rightarrow> json \<Rightarrow> json \<Rightarrow> bool option \<Rightarrow> int io" where
  "check_method path method methods verbose =
     io_bind (if verbose \<noteq> None
              then io_bind (py_add (S ''        checking method '') method) py_print
              else io_return ()) (\<lambda>_.
     io_bind (py_getitem methods method) (\<lambda>m.
     io_bind (check_description_for_method path method m) (\<lambda>a.
     io_bind (check_description_for_method_parameters path method m) (\<lambda>b.
     io_bind (check_description_for_method_responses path method m) (\<lambda>c.
     io_return (0 + a + b + c))))))"

definition check_path :: "json \<Rightarrow> json \<Rightarrow> bool option \<Rightarrow> int io" where
  "check_path path methods verbose =
     io_bind (if verbose \<noteq> None
              then io_bind (py_add (S ''    checking path '') path) py_print
              else io_return ()) (\<lambda>_.
     io_bind (py_iter methods) (\<lambda>ms.
     for_loop ms (\<lambda>method failures.
       io_bind (check_method path method methods verbose) (\<lambda>n.
       io_return (failures + n))) 0))"

definition check_all_paths :: "json \<Rightarrow> bool option \<Rightarrow> int io" where
  "check_all_paths obj verbose =
     io_bind (if verbose \<noteq> None
              then py_print (S ''    checking all paths found in OpenAPI file'')
              else io_return ()) (\<lambda>_.
     io_bind (py_getitem obj (JStr (S ''paths''))) (\<lambda>paths.
     io_bind (py_iter paths) (\<lambda>ps.
     for_loop ps (\<lambda>path failures.
       io_bind (py_getitem paths path) (\<lambda>methods.
       io_bind (check_path path methods verbose) (\<lambda>n.
       io_return (failures + n)))) 0)))"

subsection \<open>One file\<close>

text \<open>
  \<^verbatim>\<open>check_openapi_json\<close> (lines 201 to 231). \<^verbatim>\<open>open\<close> and \<^verbatim>\<open>json.load\<close> belong to Python, not to the checker: they are the
  parameters \<open>opn\<close> (a file object, or the exception of a file that cannot be opened)
  and \<open>load\<close> (the document, or the exception \<^verbatim>\<open>json.load\<close> raises; on text that
  is not JSON that is a \<^verbatim>\<open>ValueError\<close> carrying its message).

  \<open>except_ValueError\<close> runs one statement of the \<^verbatim>\<open>try\<close> block with the
  counters as they stand: a \<^verbatim>\<open>ValueError\<close> goes to the handler, which prints two
  lines and adds one failure, any other exception leaves the function.
  \<open>openapi_filename\<close> is the value of the local variable \<^verbatim>\<open>filename\<close>.
\<close>

definition except_ValueError ::
    "pystr \<Rightarrow> int \<Rightarrow> int \<Rightarrow> 'a io \<Rightarrow> ('a \<Rightarrow> (int \<times> int) io) \<Rightarrow> (int \<times> int) io" where
  "except_ValueError filename passes failures stmt rest =
     (case stmt of
        (out, Inl (ValueError e)) \<Rightarrow>
          (out @ [filename @ S '' has invalid JSON format'', e], Inr (passes, failures + 1))
      | (out, Inl err) \<Rightarrow> (out, Inl err)
      | (out, Inr x) \<Rightarrow> (case rest x of (out', r) \<Rightarrow> (out @ out', r)))"

definition openapi_filename :: "pystr \<Rightarrow> pystr" where
  "openapi_filename directory = directory @ S ''openapi.json''"

definition check_openapi_json ::
    "(pystr \<Rightarrow> py_error + 'f) \<Rightarrow> ('f \<Rightarrow> py_error + json) \<Rightarrow> bool option \<Rightarrow> pystr
      \<Rightarrow> (int \<times> int) io" where
  "check_openapi_json opn load verbose directory =
     (let passes = 0; failures = 0; filename = openapi_filename directory in
      io_bind (io_lift (opn filename)) (\<lambda>fin.
      except_ValueError filename passes failures (io_lift (load fin)) (\<lambda>obj.
      except_ValueError filename passes failures
        (if verbose \<noteq> None then py_print (filename @ S '' has valid JSON format'')
         else io_return ()) (\<lambda>_.
      except_ValueError filename passes failures (check_info_node obj verbose) (\<lambda>a.
      let failures = failures + a in
      except_ValueError filename passes failures (check_all_paths obj verbose) (\<lambda>b.
      let failures = failures + b in
      io_return (if failures = 0 then passes + 1 else passes, failures)))))))"

subsection \<open>Report\<close>

text \<open>
  \<^verbatim>\<open>read_control_code\<close> (lines 36 to 38) and \<^verbatim>\<open>display_report\<close> (lines 234 to
  269). \<^verbatim>\<open>read_control_code\<close> asks \<^verbatim>\<open>tput\<close> through \<^verbatim>\<open>popen\<close>; the first line of what
  the command prints is the parameter \<open>popen_readline\<close>. The flag \<^verbatim>\<open>nocolors\<close> is
  \<^verbatim>\<open>None\<close> or \<^verbatim>\<open>True\<close>; \<open>truthy\<close> is Python's truth value of it.
\<close>

definition read_control_code :: "(pystr \<Rightarrow> pystr) \<Rightarrow> pystr \<Rightarrow> pystr" where
  "read_control_code popen_readline operation = popen_readline (S ''tput '' @ operation)"

definition truthy :: "bool option \<Rightarrow> bool" where
  "truthy flag = (case flag of None \<Rightarrow> False | Some b \<Rightarrow> b)"

definition display_report :: "(pystr \<Rightarrow> pystr) \<Rightarrow> int \<Rightarrow> int \<Rightarrow> bool option \<Rightarrow> unit io" where
  "display_report popen_readline passes failures nocolors =
     (let colors = \<not> truthy nocolors;
          red_background =
            (if colors then read_control_code popen_readline (S ''setab 1'') else []);
          green_background =
            (if colors then read_control_code popen_readline (S ''setab 2'') else []);
          magenta_background =
            (if colors then read_control_code popen_readline (S ''setab 5'') else []);
          no_color =
            (if colors then read_control_code popen_readline (S ''sgr0'') else [])
      in
      io_bind
        (if failures = 0 then
           (if passes = 0 then
              py_print (magenta_background @ S ''[WARN]'' @ no_color
                        @ S '': no JSON files with OpenAPI detected'')
            else
              py_print (green_background @ S ''[OK]'' @ no_color
                        @ S '': OpenAPI file seems to have proper format and content''))
         else
           py_print (red_background @ S ''[FAIL]'' @ no_color
                     @ S '': file with invalid format and/or content detected'')) (\<lambda>_.
      io_bind (py_print (str_int passes @ S '' passes'')) (\<lambda>_.
      py_print (str_int failures @ S '' failures''))))"

section \<open>Inputs and vocabulary of the properties\<close>

text \<open>
  A file system with one file: \<open>one_file name content\<close> opens \<open>name\<close> and nothing
  else. A file whose text is JSON is represented by the document \<^verbatim>\<open>json.load\<close> makes
  of it (\<open>load\<close> is then \<open>Inr\<close>); \<open>not_json\<close> is \<^verbatim>\<open>json.load\<close> on a file whose
  text is not JSON, represented by the message of the \<^verbatim>\<open>ValueError\<close>.
\<close>

definition one_file :: "pystr \<Rightarrow> 'c \<Rightarrow> pystr \<Rightarrow> py_error + 'c" where
  "one_file name content filename = (if filename = name then Inr content else Inl OSError)"

definition not_json :: "pystr \<Rightarrow> py_error + json" where
  "not_json message = Inl (ValueError message)"

text \<open>Documents used as concrete inputs.\<close>

definition doc_ok :: json where
  "doc_ok = JObj [(S ''info'', JObj [(S ''description'', JStr (S ''ok''))]),
                  (S ''paths'', JObj [])]"

definition doc_without_paths :: json where
  "doc_without_paths = JObj [(S ''info'', JObj [(S ''description'', JStr (S ''ok''))])]"

text \<open>The three lines \<^verbatim>\<open>display_report\<close> chooses its first line from.\<close>

definition color_code :: "(pystr \<Rightarrow> pystr) \<Rightarrow> bool option \<Rightarrow> string \<Rightarrow> pystr" where
  "color_code popen_readline nocolors operation =
     (if truthy nocolors then [] else read_control_code popen_readline (S operation))"

definition warn_line :: "(pystr \<Rightarrow> pystr) \<Rightarrow> bool option \<Rightarrow> pystr" where
  "warn_line popen_readline nocolors =
     color_code popen_readline nocolors ''setab 5'' @ S ''[WARN]''
     @ color_code popen_readline nocolors ''sgr0''
     @ S '': no JSON files with OpenAPI detected''"

definition ok_line :: "(pystr \<Rightarrow> pystr) \<Rightarrow> bool option \<Rightarrow> pystr" where
  "ok_line popen_readline nocolors =
     color_code popen_readline nocolors ''setab 2'' @ S ''[OK]''
     @ color_code popen_readline nocolors ''sgr0''
     @ S '': OpenAPI file seems to have proper format and content''"

definition fail_line :: "(pystr \<Rightarrow> pystr) \<Rightarrow> bool option \<Rightarrow> pystr" where
  "fail_line popen_readline nocolors =
     color_code popen_readline nocolors ''setab 1'' @ S ''[FAIL]''
     @ color_code popen_readline nocolors ''sgr0''
     @ S '': file with invalid format and/or content detected''"

text \<open>
  The description rule, said of a node: its \<^verbatim>\<open>description\<close> is missing, or is a
  string that \<^verbatim>\<open>strip()\<close> empties. \<open>description_shape\<close> is the shape the rule
  expects: a mapping whose \<^verbatim>\<open>description\<close>, when present, is a string.
\<close>

definition description_violation :: "json \<Rightarrow> bool" where
  "description_violation node =
     (case node of
        JObj kvs \<Rightarrow>
          (case map_of kvs (S ''description'') of
             None \<Rightarrow> True
           | Some (JStr s) \<Rightarrow> strip s = []
           | Some _ \<Rightarrow> False)
      | _ \<Rightarrow> False)"

definition description_shape :: "json \<Rightarrow> bool" where
  "description_shape node =
     (case node of
        JObj kvs \<Rightarrow>
          (case map_of kvs (S ''description'') of
             None \<Rightarrow> True
           | Some (JStr s) \<Rightarrow> True
           | Some _ \<Rightarrow> False)
      | _ \<Rightarrow> False)"

text \<open>
  Documents the info check is specified for: \<^verbatim>\<open>null\<close>, or a mapping whose
  \<^verbatim>\<open>info\<close>, when present, has the shape above. \<open>info_violation\<close> is the
  specification's condition for one failure: the document is \<^verbatim>\<open>null\<close>, or
  \<^verbatim>\<open>info\<close> is missing, or its description is missing or blank.
\<close>

definition info_shape :: "json \<Rightarrow> bool" where
  "info_shape obj =
     (case obj of
        JNull \<Rightarrow> True
      | JObj kvs \<Rightarrow>
          (case map_of kvs (S ''info'') of None \<Rightarrow> True | Some info \<Rightarrow> description_shape info)
      | _ \<Rightarrow> False)"

definition info_violation :: "json \<Rightarrow> bool" where
  "info_violation obj =
     (case obj of
        JObj kvs \<Rightarrow>
          (case map_of kvs (S ''info'') of
             None \<Rightarrow> True
           | Some info \<Rightarrow> description_violation info)
      | _ \<Rightarrow> True)"

text \<open>
  Parameters. \<open>has_name\<close>: the parameter carries a string under \<^verbatim>\<open>name\<close>.
  \<open>parameter_shape\<close>: the shape above, with a name wherever the description rule
  is violated. \<open>parameters_shape\<close>, of an operation: \<^verbatim>\<open>parameters\<close> is missing or
  a sequence of such parameters, which \<open>parameters_of\<close> lists.
  \<open>parameter_diagnostic\<close> is the line the source prints for a violation.
\<close>

definition has_name :: "json \<Rightarrow> bool" where
  "has_name parameter =
     (case parameter of
        JObj kvs \<Rightarrow> (case map_of kvs (S ''name'') of Some (JStr n) \<Rightarrow> True | _ \<Rightarrow> False)
      | _ \<Rightarrow> False)"

definition parameter_shape :: "json \<Rightarrow> bool" where
  "parameter_shape parameter =
     (description_shape parameter \<and>
      (if description_violation parameter then has_name parameter else True))"

definition parameters_shape :: "(pystr \<times> json) list \<Rightarrow> bool" where
  "parameters_shape m =
     (case map_of m (S ''parameters'') of
        None \<Rightarrow> True
      | Some (JArr ps) \<Rightarrow> list_all parameter_shape ps
      | Some _ \<Rightarrow> False)"

definition parameters_of :: "(pystr \<times> json) list \<Rightarrow> json list" where
  "parameters_of m = (case map_of m (S ''parameters'') of Some (JArr ps) \<Rightarrow> ps | _ \<Rightarrow> [])"

definition parameter_diagnostic :: "pystr \<Rightarrow> pystr \<Rightarrow> json \<Rightarrow> pystr" where
  "parameter_diagnostic path method parameter =
     (case parameter of
        JObj kvs \<Rightarrow>
          S ''            ''
          @ (if map_of kvs (S ''description'') = None then S ''No'' else S ''Empty'')
          @ S '' description found for endpoint `'' @ path
          @ S ''` method `'' @ method
          @ S ''` and parameter `''
          @ (case map_of kvs (S ''name'') of Some (JStr n) \<Rightarrow> n | _ \<Rightarrow> [])
          @ S ''`''
      | _ \<Rightarrow> [])"

text \<open>A parameter whose description is a string with something in it.\<close>

definition well_described :: "json \<Rightarrow> bool" where
  "well_described node =
     (case node of
        JObj kvs \<Rightarrow>
          (case map_of kvs (S ''description'') of
             Some (JStr s) \<Rightarrow> strip s \<noteq> []
           | _ \<Rightarrow> False)
      | _ \<Rightarrow> False)"

text \<open>
  The grand total of the specification. \<open>count\<close> reads the failure count a
  validator returned; \<open>method_failures\<close> adds the three validators of one operation;
  \<open>methods_of\<close> and \<open>operation_of\<close> follow a path key and a method key;
  \<open>grand_total\<close> sums over every path key and every method key under it, and
  \<open>all_diagnostics\<close> collects what the validators print in the same order.
  \<open>paths_checkable\<close>: every path leads to a mapping, and on every operation the
  three validators return a count.
\<close>

definition count :: "int io \<Rightarrow> int" where
  "count c = (case res c of Inr n \<Rightarrow> n | Inl e \<Rightarrow> 0)"

definition returns :: "'a io \<Rightarrow> bool" where
  "returns c = (case res c of Inr x \<Rightarrow> True | Inl e \<Rightarrow> False)"

definition method_failures :: "pystr \<Rightarrow> pystr \<Rightarrow> json \<Rightarrow> int" where
  "method_failures path method m =
     count (check_description_for_method (JStr path) (JStr method) m)
     + count (check_description_for_method_parameters (JStr path) (JStr method) m)
     + count (check_description_for_method_responses (JStr path) (JStr method) m)"

definition method_diagnostics :: "pystr \<Rightarrow> pystr \<Rightarrow> json \<Rightarrow> pystr list" where
  "method_diagnostics path method m =
     outp (check_description_for_method (JStr path) (JStr method) m)
     @ outp (check_description_for_method_parameters (JStr path) (JStr method) m)
     @ outp (check_description_for_method_responses (JStr path) (JStr method) m)"

definition validators_return :: "pystr \<Rightarrow> pystr \<Rightarrow> json \<Rightarrow> bool" where
  "validators_return path method m =
     (returns (check_description_for_method (JStr path) (JStr method) m)
      \<and> returns (check_description_for_method_parameters (JStr path) (JStr method) m)
      \<and> returns (check_description_for_method_responses (JStr path) (JStr method) m))"

definition methods_of :: "(pystr \<times> json) list \<Rightarrow> pystr \<Rightarrow> (pystr \<times> json) list" where
  "methods_of ps path = (case map_of ps path of Some (JObj ms) \<Rightarrow> ms | _ \<Rightarrow> [])"

definition operation_of :: "(pystr \<times> json) list \<Rightarrow> pystr \<Rightarrow> json" where
  "operation_of ms method = (case map_of ms method of Some m \<Rightarrow> m | None \<Rightarrow> JNull)"

definition paths_checkable :: "(pystr \<times> json) list \<Rightarrow> bool" where
  "paths_checkable ps =
     list_all (\<lambda>path.
       (case map_of ps path of
          Some (JObj ms) \<Rightarrow>
            list_all (\<lambda>method. validators_return path method (operation_of ms method))
              (map fst ms)
        | _ \<Rightarrow> False))
       (map fst ps)"

definition grand_total :: "(pystr \<times> json) list \<Rightarrow> int" where
  "grand_total ps =
     sum_list (map (\<lambda>path.
       sum_list (map (\<lambda>method.
         method_failures path method (operation_of (methods_of ps path) method))
         (map fst (methods_of ps path))))
       (map fst ps))"

definition all_diagnostics :: "(pystr \<times> json) list \<Rightarrow> pystr list" where
  "all_diagnostics ps =
     concat (map (\<lambda>path.
       concat (map (\<lambda>method.
         method_diagnostics path method (operation_of (methods_of ps path) method))
         (map fst (methods_of ps path))))
       (map fst ps))"

text \<open>More concrete inputs.\<close>

definition doc_null_description :: json where
  "doc_null_description = JObj [(S ''info'', JObj [(S ''description'', JNull)])]"

definition op_nameless :: json where
  "op_nameless = JObj [(S ''description'', JStr (S ''d'')), (S ''parameters'', JArr [JObj []])]"

definition doc_nameless :: json where
  "doc_nameless = JObj [(S ''paths'', JObj [(S ''/a'', JObj [(S ''get'', op_nameless)])])]"

text \<open>
  Scenario C of the specification, with a second parameter that is in order and a
  response without description.
\<close>

definition op_scenario_C :: json where
  "op_scenario_C =
     JObj [(S ''description'', JStr (S ''d'')),
           (S ''parameters'',
              JArr [JObj [(S ''name'', JStr (S ''id''))],
                    JObj [(S ''name'', JStr (S ''q'')), (S ''description'', JStr (S ''query''))],
                    JObj [(S ''name'', JStr (S ''n'')), (S ''description'', JStr (S '' ''))]]),
           (S ''responses'', JObj [(S ''200'', JObj [])])]"

definition doc_scenario_C :: json where
  "doc_scenario_C =
     JObj [(S ''info'', JObj [(S ''description'', JStr (S ''x''))]),
           (S ''paths'', JObj [(S ''/a'', JObj [(S ''get'', op_scenario_C)])])]"

section \<open>Laws of printing and raising\<close>

lemmas io_defs =
  io_bind_def io_return_def io_raise_def io_lift_def py_print_def outp_def res_def

lemma io_bind_return [simp]: "io_bind (io_return x) f = f x"
  by (simp add: io_bind_def io_return_def split: prod.splits)

lemma io_bind_raise [simp]: "io_bind (io_raise e) f = io_raise e"
  by (simp add: io_bind_def io_raise_def)

lemma io_bind_print [simp]: "io_bind (py_print s) f = (s # outp (f ()), res (f ()))"
  by (simp add: io_defs split: prod.splits)

lemma io_bind_value: "c = (out, Inr x) \<Longrightarrow> io_bind c f = (out @ outp (f x), res (f x))"
  by (simp add: io_defs split: prod.splits)

lemma io_bind_error: "c = (out, Inl e) \<Longrightarrow> io_bind c f = (out, Inl e)"
  by (simp add: io_defs)

lemma res_io_bind:
  "res (io_bind c f) = (case res c of Inl e \<Rightarrow> Inl e | Inr x \<Rightarrow> res (f x))"
  by (cases c) (simp add: io_defs split: sum.splits prod.splits)

lemma res_simps [simp]:
  "res (io_return x) = Inr x" "res (io_raise e) = Inl e" "res (out, r) = r"
  by (simp_all add: io_defs)

lemma outp_simps [simp]:
  "outp (io_return x) = []" "outp (io_raise e) = []" "outp (out, r) = out"
  by (simp_all add: io_defs)

lemma io_pair [simp]: "(outp c, res c) = c"
  by (simp add: io_defs)

lemma io_bind_nil [simp]: "io_bind ([], Inr x) f = f x"
  by (simp add: io_bind_def split: prod.splits)

lemma io_bind_Inr [simp]: "io_bind (out, Inr x) f = (out @ outp (f x), res (f x))"
  by (simp add: io_defs split: prod.splits)

lemma io_bind_Inl [simp]: "io_bind (out, Inl e) f = (out, Inl e)"
  by (simp add: io_bind_def)

lemma except_ValueError_value:
  "stmt = (out, Inr x) \<Longrightarrow>
   except_ValueError filename passes failures stmt rest = (out @ outp (rest x), res (rest x))"
  by (simp add: except_ValueError_def io_defs split: prod.splits)

lemma except_ValueError_caught:
  "stmt = (out, Inl (ValueError e)) \<Longrightarrow>
   except_ValueError filename passes failures stmt rest =
     (out @ [filename @ S '' has invalid JSON format'', e], Inr (passes, failures + 1))"
  by (simp add: except_ValueError_def)

lemma except_ValueError_escapes:
  "stmt = (out, Inl err) \<Longrightarrow> \<forall>e. err \<noteq> ValueError e \<Longrightarrow>
   except_ValueError filename passes failures stmt rest = (out, Inl err)"
  by (cases err) (simp_all add: except_ValueError_def)

lemma except_ValueError_print [simp]:
  "except_ValueError filename passes failures (py_print s) rest =
     (s # outp (rest ()), res (rest ()))"
  by (simp add: except_ValueError_def io_defs split: prod.splits)

lemma except_ValueError_return [simp]:
  "except_ValueError filename passes failures (io_return x) rest = rest x"
  by (simp add: except_ValueError_def io_defs split: prod.splits)

text \<open>Nothing the info check does raises a \<^verbatim>\<open>ValueError\<close>.\<close>

lemma no_ValueError_bind:
  "res c \<noteq> Inl (ValueError msg) \<Longrightarrow> (\<And>x. res (f x) \<noteq> Inl (ValueError msg)) \<Longrightarrow>
   res (io_bind c f) \<noteq> Inl (ValueError msg)"
  by (auto simp: res_io_bind split: sum.splits)

lemma res_print [simp]: "res (py_print s) = Inr ()" "outp (py_print s) = [s]"
  by (simp_all add: py_print_def)

lemma no_ValueError_print [simp]: "res (py_print s) \<noteq> Inl (ValueError msg)"
  by (simp add: py_print_def)

lemma no_ValueError_in [simp]: "res (py_in key c) \<noteq> Inl (ValueError msg)"
  by (cases c) simp_all

lemma no_ValueError_index [simp]: "res (py_index xs i) \<noteq> Inl (ValueError msg)"
  by (simp add: py_index_def Let_def)

lemma no_ValueError_getitem [simp]: "res (py_getitem c k) \<noteq> Inl (ValueError msg)"
  by (cases c; cases k) (auto simp: res_io_bind py_index_def Let_def split: option.splits sum.splits)

lemma no_ValueError_strip [simp]: "res (py_strip v) \<noteq> Inl (ValueError msg)"
  by (cases v) simp_all

lemma no_ValueError_empty_attribute [simp]:
  "res (empty_attribute node selector) \<noteq> Inl (ValueError msg)"
  unfolding empty_attribute_def by (intro no_ValueError_bind) simp_all

lemma no_ValueError_info [simp]: "res (check_info_node obj verbose) \<noteq> Inl (ValueError msg)"
  unfolding check_info_node_def
  by (intro no_ValueError_bind) (simp_all add: no_ValueError_bind)

section \<open>The info node: \<^verbatim>\<open>check_info_node\<close>\<close>

text \<open>Membership and lookup in a mapping, and the blank test on a string found there.\<close>

lemma py_in_JObj: "py_in key (JObj kvs) = io_return (map_of kvs key \<noteq> None)"
  by (simp add: map_of_eq_None_iff)

lemma py_getitem_present:
  "map_of kvs key = Some v \<Longrightarrow> py_getitem (JObj kvs) (JStr key) = io_return v"
  by simp

lemma py_getitem_missing:
  "map_of kvs key = None \<Longrightarrow> py_getitem (JObj kvs) (JStr key) = io_raise (KeyError (JStr key))"
  by simp

lemma empty_attribute_string:
  "map_of kvs key = Some (JStr s) \<Longrightarrow>
   empty_attribute (JObj kvs) key = io_return (strip s = [])"
  by (simp add: empty_attribute_def)

lemma check_info_node_range:
  "res (check_info_node obj verbose) = Inr n \<Longrightarrow> n = 0 \<or> n = 1"
  by (auto simp: check_info_node_def res_io_bind split: sum.splits if_splits)

lemma check_info_node_shaped:
  assumes "info_shape obj"
  shows "res (check_info_node obj verbose) = Inr (if info_violation obj then 1 else 0)"
proof (cases obj)
  case JNull
  then show ?thesis
    by (simp add: check_info_node_def info_violation_def res_io_bind)
next
  case (JObj kvs)
  show ?thesis
  proof (cases "map_of kvs (S ''info'')")
    case None
    with JObj show ?thesis
      by (simp add: check_info_node_def info_violation_def res_io_bind py_in_JObj
          del: py_in.simps)
  next
    case (Some info)
    with assms JObj obtain i where info: "info = JObj i"
      by (cases info) (simp_all add: info_shape_def description_shape_def)
    show ?thesis
    proof (cases "map_of i (S ''description'')")
      case None
      with JObj Some info show ?thesis
        by (simp add: check_info_node_def info_violation_def description_violation_def
            res_io_bind py_in_JObj del: py_in.simps)
    next
      case d: (Some v)
      with assms JObj Some info obtain s where "v = JStr s"
        by (cases v) (simp_all add: info_shape_def description_shape_def)
      with d JObj Some info show ?thesis
        by (simp add: check_info_node_def info_violation_def description_violation_def
            res_io_bind py_in_JObj empty_attribute_string del: py_in.simps)
    qed
  qed
qed (use assms in \<open>simp_all add: info_shape_def\<close>)

text \<open>
  Claim C4, as the code has it. Whatever the document, a count that
  \<^verbatim>\<open>check_info_node\<close> returns is 0 or 1. On \<^verbatim>\<open>null\<close> and on a mapping whose
  \<^verbatim>\<open>info\<close>, when present, is a mapping with a string for its description, when
  present, it returns 1 if the document is \<^verbatim>\<open>null\<close>, or \<^verbatim>\<open>info\<close> is missing, or
  the description is missing or blank, and 0 otherwise.
\<close>

theorem check_info_node_zero_or_one:
  "(\<forall>n. res (check_info_node obj verbose) = Inr n \<longrightarrow> n = 0 \<or> n = 1) \<and>
   (info_shape obj \<longrightarrow>
      res (check_info_node obj verbose) = Inr (if info_violation obj then 1 else 0))"
  using check_info_node_range check_info_node_shaped by blast

theorem check_info_node_zero_or_one_witness:
  "res (check_info_node doc_ok None) = Inr 0 \<and>
   res (check_info_node doc_without_paths (Some True)) = Inr 0 \<and>
   res (check_info_node JNull None) = Inr 1"
  using check_info_node_zero_or_one [of doc_ok None]
    check_info_node_zero_or_one [of doc_without_paths "Some True"]
    check_info_node_zero_or_one [of JNull None]
  by (simp add: doc_ok_def doc_without_paths_def info_shape_def info_violation_def
      description_shape_def description_violation_def strip_def isspace_def S_def)

text \<open>
  Claim C4 as stated speaks of every input document and fails on
  \<^verbatim>\<open>{"info": {"description": null}}\<close>: the description is there and is not a
  string, \<^verbatim>\<open>strip\<close> is called on it and \<^verbatim>\<open>AttributeError\<close> leaves the function,
  which returns neither 0 nor 1.
\<close>

theorem null_description_raises:
  "res (check_info_node doc_null_description None) = Inl AttributeError"
  by (simp add: doc_null_description_def check_info_node_def empty_attribute_def
      res_io_bind S_def)

section \<open>Parameters: \<^verbatim>\<open>check_description_for_method_parameters\<close>\<close>

text \<open>One turn of the loop on a parameter of the expected shape.\<close>

lemma parameter_body_shaped:
  assumes "parameter_shape p"
  shows "parameter_body (JStr path) (JStr method) p failures =
           (if description_violation p
            then ([parameter_diagnostic path method p], Inr (failures + 1))
            else ([], Inr failures))"
proof -
  from assms obtain kvs where p: "p = JObj kvs"
    by (cases p) (simp_all add: parameter_shape_def description_shape_def)
  show ?thesis
  proof (cases "map_of kvs (S ''description'')")
    case None
    with assms p obtain n where "map_of kvs (S ''name'') = Some (JStr n)"
      by (auto simp: parameter_shape_def description_violation_def has_name_def
          split: option.splits json.splits)
    with None p show ?thesis
      by (simp add: parameter_body_def description_violation_def parameter_diagnostic_def
          py_in_JObj io_return_def S_def del: py_in.simps)
  next
    case (Some v)
    with assms p obtain s where v: "v = JStr s"
      by (cases v) (simp_all add: parameter_shape_def description_shape_def)
    show ?thesis
    proof (cases "strip s = []")
      case True
      with assms p Some v obtain n where "map_of kvs (S ''name'') = Some (JStr n)"
        by (auto simp: parameter_shape_def description_violation_def has_name_def
            split: option.splits json.splits)
      with True Some v p show ?thesis
        by (simp add: parameter_body_def description_violation_def parameter_diagnostic_def
            py_in_JObj empty_attribute_string io_return_def S_def del: py_in.simps)
    next
      case False
      with Some v p show ?thesis
        by (simp add: parameter_body_def description_violation_def
            py_in_JObj empty_attribute_string io_return_def S_def del: py_in.simps)
    qed
  qed
qed

lemma for_loop_parameters:
  "list_all parameter_shape ps \<Longrightarrow>
   for_loop ps (parameter_body (JStr path) (JStr method)) failures =
     (map (parameter_diagnostic path method) (filter description_violation ps),
      Inr (failures + int (length (filter description_violation ps))))"
proof (induction ps arbitrary: failures)
  case Nil
  then show ?case by (simp add: io_return_def)
next
  case (Cons p ps)
  then show ?case
    by (simp add: parameter_body_shaped io_bind_value)
qed

lemma parameters_shaped:
  assumes "parameters_shape m"
  shows "check_description_for_method_parameters (JStr path) (JStr method) (JObj m) =
           (map (parameter_diagnostic path method)
              (filter description_violation (parameters_of m)),
            Inr (int (length (filter description_violation (parameters_of m)))))"
proof (cases "map_of m (S ''parameters'')")
  case None
  then show ?thesis
    by (simp add: check_description_for_method_parameters_def parameters_of_def py_in_JObj
        io_return_def del: py_in.simps)
next
  case (Some v)
  with assms obtain ps where v: "v = JArr ps" and ps: "list_all parameter_shape ps"
    by (cases v) (simp_all add: parameters_shape_def)
  with Some show ?thesis
    by (simp add: check_description_for_method_parameters_def parameters_of_def py_in_JObj
        for_loop_parameters del: py_in.simps)
qed

text \<open>
  The other direction, with nothing assumed of \<^verbatim>\<open>path\<close>, \<^verbatim>\<open>method\<close> or the
  operation: what each step hands on when it returns, and so what the loop has
  counted when it returns.
\<close>

lemma bind_returns:
  "io_bind c f = (out, Inr y) \<Longrightarrow>
   \<exists>out1 x out2. c = (out1, Inr x) \<and> f x = (out2, Inr y) \<and> out = out1 @ out2"
  by (cases c) (auto simp: io_bind_def split: sum.splits prod.splits)

lemma py_add_returns: "py_add s v = (out, Inr t) \<Longrightarrow> out = [] \<and> (\<exists>u. v = JStr u \<and> t = s @ u)"
  by (cases v) (simp_all add: io_return_def io_raise_def)

lemma py_in_returns: "py_in k v = (out, Inr b) \<Longrightarrow> out = []"
  by (cases v) (simp_all add: io_return_def io_raise_def)

lemma py_getitem_returns: "py_getitem c k = (out, Inr v) \<Longrightarrow> out = []"
  by (cases c; cases k)
     (auto simp: io_return_def io_raise_def py_index_def Let_def io_bind_def
        split: option.splits if_splits sum.splits prod.splits)

lemma empty_attribute_returns:
  assumes "empty_attribute node key = (out, Inr b)"
  shows "out = [] \<and> (\<exists>v s. py_getitem node (JStr key) = ([], Inr v) \<and> v = JStr s \<and> b = (strip s = []))"
proof -
  from assms obtain out1 v out2 where v: "py_getitem node (JStr key) = (out1, Inr v)"
    and rest: "io_bind (py_strip v) (\<lambda>s. io_return (s = [])) = (out2, Inr b)"
    and out: "out = out1 @ out2"
    unfolding empty_attribute_def by (blast dest: bind_returns)
  from v have "out1 = []" by (rule py_getitem_returns)
  moreover from rest obtain s where "v = JStr s" and "b = (strip s = [])" and "out2 = []"
    by (cases v) (auto simp: io_return_def io_raise_def)
  ultimately show ?thesis using v out by auto
qed

lemma py_getitem_string_key:
  "py_getitem c (JStr k) = (out, Inr v) \<Longrightarrow> \<exists>kvs. c = JObj kvs \<and> map_of kvs k = Some v"
  by (cases c) (auto simp: io_return_def io_raise_def split: option.splits)

lemma diagnostic_returns:
  assumes "io_bind (py_add a path) (\<lambda>s1.
           io_bind (py_add (s1 @ b) method) (\<lambda>s2.
           io_bind (py_getitem p (JStr (S ''name''))) (\<lambda>n.
           io_bind (py_add (s2 @ c) n) (\<lambda>s3.
           io_bind (py_print (s3 @ d)) (\<lambda>_.
           io_return (failures + 1)))))) = (out, Inr n)"
  shows "n = failures + 1 \<and> length out = 1"
proof -
  from assms obtain o1 s1 o2 where 1: "py_add a path = (o1, Inr s1)"
    and r1: "io_bind (py_add (s1 @ b) method) (\<lambda>s2.
           io_bind (py_getitem p (JStr (S ''name''))) (\<lambda>n.
           io_bind (py_add (s2 @ c) n) (\<lambda>s3.
           io_bind (py_print (s3 @ d)) (\<lambda>_.
           io_return (failures + 1))))) = (o2, Inr n)" and out1: "out = o1 @ o2"
    by (blast dest: bind_returns)
  from r1 obtain o3 s2 o4 where 2: "py_add (s1 @ b) method = (o3, Inr s2)"
    and r2: "io_bind (py_getitem p (JStr (S ''name''))) (\<lambda>n.
           io_bind (py_add (s2 @ c) n) (\<lambda>s3.
           io_bind (py_print (s3 @ d)) (\<lambda>_.
           io_return (failures + 1)))) = (o4, Inr n)" and out2: "o2 = o3 @ o4"
    by (blast dest: bind_returns)
  from r2 obtain o5 nm o6 where 3: "py_getitem p (JStr (S ''name'')) = (o5, Inr nm)"
    and r3: "io_bind (py_add (s2 @ c) nm) (\<lambda>s3.
           io_bind (py_print (s3 @ d)) (\<lambda>_.
           io_return (failures + 1))) = (o6, Inr n)" and out3: "o4 = o5 @ o6"
    by (blast dest: bind_returns)
  from r3 obtain o7 s3 o8 where 4: "py_add (s2 @ c) nm = (o7, Inr s3)"
    and r4: "io_bind (py_print (s3 @ d)) (\<lambda>_. io_return (failures + 1)) = (o8, Inr n)"
    and out4: "o6 = o7 @ o8"
    by (blast dest: bind_returns)
  from r4 have "o8 = [s3 @ d]" and "n = failures + 1"
    by (simp_all add: io_return_def)
  moreover from 1 2 3 4 have "o1 = []" "o3 = []" "o5 = []" "o7 = []"
    by (auto dest: py_add_returns py_getitem_returns)
  ultimately show ?thesis using out1 out2 out3 out4 by simp
qed

lemma parameter_body_returns:
  assumes "parameter_body path method p failures = (out, Inr n)"
  shows "(description_violation p \<and> n = failures + 1 \<and> length out = 1) \<or>
         (\<not> description_violation p \<and> n = failures \<and> out = [])"
proof -
  from assms obtain out1 described out2 where
    d: "py_in (S ''description'') p = (out1, Inr described)" and
    rest: "(if \<not> described then
       io_bind (py_add (S ''            No description found for endpoint `'') path) (\<lambda>s1.
       io_bind (py_add (s1 @ S ''` method `'') method) (\<lambda>s2.
       io_bind (py_getitem p (JStr (S ''name''))) (\<lambda>n.
       io_bind (py_add (s2 @ S ''` and parameter `'') n) (\<lambda>s3.
       io_bind (py_print (s3 @ S ''`'')) (\<lambda>_.
       io_return (failures + 1))))))
     else
       io_bind (empty_attribute p (S ''description'')) (\<lambda>blank.
       if blank then
         io_bind (py_add (S ''            Empty description found for endpoint `'') path) (\<lambda>s1.
         io_bind (py_add (s1 @ S ''` method `'') method) (\<lambda>s2.
         io_bind (py_getitem p (JStr (S ''name''))) (\<lambda>n.
         io_bind (py_add (s2 @ S ''` and parameter `'') n) (\<lambda>s3.
         io_bind (py_print (s3 @ S ''`'')) (\<lambda>_.
         io_return (failures + 1))))))
       else io_return failures)) = (out2, Inr n)" and
    out: "out = out1 @ out2"
    unfolding parameter_body_def by (blast dest: bind_returns)
  from d have out1: "out1 = []" by (rule py_in_returns)
  show ?thesis
  proof (cases described)
    case False
    with rest have *: "n = failures + 1 \<and> length out2 = 1"
      by (simp add: diagnostic_returns)
    from False rest obtain o0 v where "py_getitem p (JStr (S ''name'')) = (o0, Inr v)"
      by (auto dest!: bind_returns)
    then obtain kvs where p: "p = JObj kvs"
      by (blast dest: py_getitem_string_key)
    with d False have "map_of kvs (S ''description'') = None"
      by (simp add: io_return_def map_of_eq_None_iff)
    with p have "description_violation p"
      by (simp add: description_violation_def)
    with * out out1 show ?thesis by simp
  next
    case True
    with rest obtain o3 blank o4 where
      e: "empty_attribute p (S ''description'') = (o3, Inr blank)" and
      r2: "(if blank then
         io_bind (py_add (S ''            Empty description found for endpoint `'') path) (\<lambda>s1.
         io_bind (py_add (s1 @ S ''` method `'') method) (\<lambda>s2.
         io_bind (py_getitem p (JStr (S ''name''))) (\<lambda>n.
         io_bind (py_add (s2 @ S ''` and parameter `'') n) (\<lambda>s3.
         io_bind (py_print (s3 @ S ''`'')) (\<lambda>_.
         io_return (failures + 1))))))
       else io_return failures) = (o4, Inr n)" and
      out2: "out2 = o3 @ o4"
      by (auto dest!: bind_returns)
    from e obtain s where o3: "o3 = []"
      and g: "py_getitem p (JStr (S ''description'')) = ([], Inr (JStr s))"
      and b: "blank = (strip s = [])"
      by (blast dest: empty_attribute_returns)
    from g obtain kvs where p: "p = JObj kvs"
      and m: "map_of kvs (S ''description'') = Some (JStr s)"
      by (blast dest: py_getitem_string_key)
    from p m b have v: "description_violation p = blank"
      by (simp add: description_violation_def)
    show ?thesis
    proof (cases blank)
      case True
      with r2 have "n = failures + 1 \<and> length o4 = 1"
        by (simp add: diagnostic_returns)
      with True v out out1 out2 o3 show ?thesis by simp
    next
      case False
      with r2 have "n = failures" and "o4 = []"
        by (simp_all add: io_return_def)
      with False v out out1 out2 o3 show ?thesis by simp
    qed
  qed
qed

lemma for_loop_parameters_returns:
  "for_loop ps (parameter_body path method) failures = (out, Inr n) \<Longrightarrow>
   n = failures + int (length (filter description_violation ps)) \<and>
   length out = length (filter description_violation ps)"
proof (induction ps arbitrary: failures out)
  case Nil
  then show ?case by (simp add: io_return_def)
next
  case (Cons p ps)
  from Cons.prems obtain o1 f1 o2 where
    b: "parameter_body path method p failures = (o1, Inr f1)" and
    l: "for_loop ps (parameter_body path method) f1 = (o2, Inr n)" and
    out: "out = o1 @ o2"
    by (auto dest!: bind_returns)
  from Cons.IH [OF l] parameter_body_returns [OF b] out show ?case
    by auto
qed

lemma parameters_returns:
  assumes "check_description_for_method_parameters path method (JObj m) = (out, Inr n)"
  shows "n = int (length (filter description_violation (parameters_of m))) \<and>
         length out = length (filter description_violation (parameters_of m))"
proof (cases "map_of m (S ''parameters'')")
  case None
  with assms show ?thesis
    by (simp add: check_description_for_method_parameters_def parameters_of_def
        py_in_JObj io_return_def del: py_in.simps)
next
  case (Some v)
  with assms obtain o1 ps o2 where it: "py_iter v = (o1, Inr ps)"
    and l: "for_loop ps (parameter_body path method) 0 = (o2, Inr n)" and out: "out = o1 @ o2"
    by (auto simp: check_description_for_method_parameters_def py_in_JObj
        simp del: py_in.simps dest!: bind_returns)
  from it have o1: "o1 = []" by (cases v) (simp_all add: io_return_def io_raise_def)
  have n: "n = int (length (filter description_violation ps)) \<and>
      length o2 = length (filter description_violation ps)"
    using for_loop_parameters_returns [OF l] by simp
  show ?thesis
  proof (cases v)
    case (JArr xs)
    with it Some n out o1 show ?thesis
      by (simp add: parameters_of_def io_return_def)
  next
    case (JObj kvs)
    with it have "filter description_violation ps = []"
      by (auto simp: io_return_def filter_empty_conv description_violation_def)
    with JObj Some n out o1 show ?thesis
      by (simp add: parameters_of_def)
  next
    case (JStr s)
    with it have "filter description_violation ps = []"
      by (auto simp: io_return_def filter_empty_conv description_violation_def)
    with JStr Some n out o1 show ?thesis
      by (simp add: parameters_of_def)
  qed (use it in \<open>simp_all add: io_raise_def\<close>)
qed




text \<open>
  The loop over a sequence is the loop over its front, then over its rest; a
  nameless parameter that violates the rule stops it; a parameter with a description
  that is not blank passes untouched.
\<close>

lemma for_loop_append:
  "for_loop (xs @ ys) body failures = io_bind (for_loop xs body failures) (for_loop ys body)"
proof (induction xs arbitrary: failures)
  case Nil
  then show ?case by simp
next
  case (Cons x xs)
  then show ?case
    by (cases "body x failures") (auto simp: io_bind_def split: sum.splits prod.splits)
qed

lemma parameter_body_nameless:
  assumes "map_of kvs (S ''name'') = None" and "description_violation (JObj kvs)"
  shows "parameter_body (JStr path) (JStr method) (JObj kvs) failures =
           ([], Inl (KeyError (JStr (S ''name''))))"
proof (cases "map_of kvs (S ''description'')")
  case None
  with assms(1) show ?thesis
    by (simp add: parameter_body_def py_in_JObj io_raise_def del: py_in.simps)
next
  case (Some v)
  with assms(2) obtain s where "v = JStr s" and "strip s = []"
    by (cases v) (simp_all add: description_violation_def)
  with Some assms(1) show ?thesis
    by (simp add: parameter_body_def py_in_JObj empty_attribute_string io_raise_def
        del: py_in.simps)
qed

lemma parameter_body_well_described:
  assumes "well_described p"
  shows "parameter_body path method p failures = ([], Inr failures)"
proof -
  from assms obtain kvs where p: "p = JObj kvs"
    by (cases p) (simp_all add: well_described_def)
  with assms obtain v where v: "map_of kvs (S ''description'') = Some v"
    by (cases "map_of kvs (S ''description'')") (simp_all add: well_described_def)
  with assms p obtain s where "v = JStr s" and "strip s \<noteq> []"
    by (cases v) (simp_all add: well_described_def)
  with p v show ?thesis
    by (simp add: parameter_body_def py_in_JObj empty_attribute_string io_return_def
        del: py_in.simps)
qed

lemma for_loop_well_described:
  "list_all well_described ps \<Longrightarrow>
   for_loop ps (parameter_body path method) failures = ([], Inr failures)"
  by (induction ps arbitrary: failures)
     (simp_all add: parameter_body_well_described io_return_def)

text \<open>
  Claim C8. In the parameters of an operation, a mapping without \<^verbatim>\<open>name\<close> whose
  description is missing or blank makes \<^verbatim>\<open>check_description_for_method_parameters\<close>
  raise \<^verbatim>\<open>KeyError\<close> for \<^verbatim>\<open>name\<close>, once the loop has come to it (the parameters
  before it have been counted, their lines printed). Conversely, when every parameter
  has a description that is not blank, the function returns 0 and prints nothing,
  named or not, and whatever \<^verbatim>\<open>path\<close> and \<^verbatim>\<open>method\<close> are.
\<close>

theorem nameless_parameter_raises:
  "(map_of m (S ''parameters'') = Some (JArr (before @ JObj kvs # after)) \<and>
    map_of kvs (S ''name'') = None \<and> description_violation (JObj kvs) \<and>
    for_loop before (parameter_body (JStr path) (JStr method)) 0 = (out, Inr n)
    \<longrightarrow> check_description_for_method_parameters (JStr path) (JStr method) (JObj m) =
          (out, Inl (KeyError (JStr (S ''name''))))) \<and>
   (map_of m' (S ''parameters'') = Some (JArr ps) \<and> list_all well_described ps
    \<longrightarrow> check_description_for_method_parameters path' method' (JObj m') = ([], Inr 0))"
proof (intro conjI impI)
  assume a: "map_of m (S ''parameters'') = Some (JArr (before @ JObj kvs # after)) \<and>
    map_of kvs (S ''name'') = None \<and> description_violation (JObj kvs) \<and>
    for_loop before (parameter_body (JStr path) (JStr method)) 0 = (out, Inr n)"
  then have "for_loop (before @ JObj kvs # after) (parameter_body (JStr path) (JStr method)) 0 =
      (out, Inl (KeyError (JStr (S ''name''))))"
    by (simp add: for_loop_append io_bind_value parameter_body_nameless)
  with a show "check_description_for_method_parameters (JStr path) (JStr method) (JObj m) =
      (out, Inl (KeyError (JStr (S ''name''))))"
    by (simp add: check_description_for_method_parameters_def py_in_JObj del: py_in.simps)
next
  assume "map_of m' (S ''parameters'') = Some (JArr ps) \<and> list_all well_described ps"
  then show "check_description_for_method_parameters path' method' (JObj m') = ([], Inr 0)"
    by (simp add: check_description_for_method_parameters_def py_in_JObj
        for_loop_well_described del: py_in.simps)
qed

theorem nameless_parameter_raises_witness:
  "check_description_for_method_parameters (JStr (S ''/a'')) (JStr (S ''get''))
     (JObj [(S ''parameters'',
               JArr [JObj [(S ''name'', JStr (S ''id''))], JObj [(S ''description'', JStr (S '' ''))],
                     JObj []])]) =
     ([S ''            No description found for endpoint `/a` method `get` and parameter `id`''],
      Inl (KeyError (JStr (S ''name'')))) \<and>
   check_description_for_method_parameters (JStr (S ''/a'')) (JStr (S ''get''))
     (JObj [(S ''parameters'', JArr [JObj [(S ''description'', JStr (S ''the id''))]])]) =
     ([], Inr 0)"
  using nameless_parameter_raises
    [of "[(S ''parameters'',
               JArr [JObj [(S ''name'', JStr (S ''id''))], JObj [(S ''description'', JStr (S '' ''))],
                     JObj []])]"
        "[JObj [(S ''name'', JStr (S ''id''))]]" "[(S ''description'', JStr (S '' ''))]" "[JObj []]"
        "S ''/a''" "S ''get''"
        "[S ''            No description found for endpoint `/a` method `get` and parameter `id`'']"
        1
        "[(S ''parameters'', JArr [JObj [(S ''description'', JStr (S ''the id''))]])]"
        "[JObj [(S ''description'', JStr (S ''the id''))]]" "JStr (S ''/a'')" "JStr (S ''get'')"]
  by (simp add: description_violation_def well_described_def parameter_body_def
      io_return_def strip_def isspace_def S_def)

section \<open>All paths: \<^verbatim>\<open>check_all_paths\<close>\<close>

text \<open>
  A loop whose body adds the count of a check to the accumulator: when the check
  returns on every element, the loop returns the sum of the counts and has printed
  what each check printed, in order.
\<close>

lemma returns_value: "returns c \<Longrightarrow> c = (outp c, Inr (count c))"
  by (cases c) (auto simp: returns_def count_def io_defs split: sum.splits)

lemma for_loop_sum:
  assumes "list_all (\<lambda>x. returns (g x)) xs"
  shows "for_loop xs (\<lambda>x failures. io_bind (g x) (\<lambda>n. io_return (failures + n))) failures =
           (concat (map (\<lambda>x. outp (g x)) xs), Inr (failures + sum_list (map (\<lambda>x. count (g x)) xs)))"
  using assms
proof (induction xs arbitrary: failures)
  case Nil
  then show ?case by (simp add: io_return_def)
next
  case (Cons x xs)
  from Cons.prems have "g x = (outp (g x), Inr (count (g x)))"
    by (simp add: returns_value [symmetric])
  then have "io_bind (g x) (\<lambda>n. io_return (failures + n)) =
      (outp (g x), Inr (failures + count (g x)))"
    by (metis append_Nil2 io_bind_Inr outp_simps(1) res_simps(1))
  with Cons show ?case
    by (simp add: add.assoc)
qed

text \<open>
  One method, then every method of one path: \<^verbatim>\<open>check_method\<close> and
  \<^verbatim>\<open>check_path\<close> when the three validators return.
\<close>

lemma key_present: "k \<in> set (map fst ms) \<Longrightarrow> map_of ms k = Some (operation_of ms k)"
  by (cases "map_of ms k") (auto simp: operation_of_def map_of_eq_None_iff)

lemma check_method_returns:
  assumes "k \<in> set (map fst ms)" and "validators_return path k (operation_of ms k)"
  shows "check_method (JStr path) (JStr k) (JObj ms) verbose =
           ((if verbose \<noteq> None then [S ''        checking method '' @ k] else [])
              @ method_diagnostics path k (operation_of ms k),
            Inr (method_failures path k (operation_of ms k)))"
proof -
  let ?m = "operation_of ms k"
  from assms(2) have
    a: "check_description_for_method (JStr path) (JStr k) ?m =
          (outp (check_description_for_method (JStr path) (JStr k) ?m),
           Inr (count (check_description_for_method (JStr path) (JStr k) ?m)))" and
    b: "check_description_for_method_parameters (JStr path) (JStr k) ?m =
          (outp (check_description_for_method_parameters (JStr path) (JStr k) ?m),
           Inr (count (check_description_for_method_parameters (JStr path) (JStr k) ?m)))" and
    c: "check_description_for_method_responses (JStr path) (JStr k) ?m =
          (outp (check_description_for_method_responses (JStr path) (JStr k) ?m),
           Inr (count (check_description_for_method_responses (JStr path) (JStr k) ?m)))"
    by (simp_all add: validators_return_def returns_value [symmetric])
  have "check_method (JStr path) (JStr k) (JObj ms) verbose =
      io_bind (if verbose \<noteq> None then py_print (S ''        checking method '' @ k)
               else io_return ())
        (\<lambda>_. io_bind (check_description_for_method (JStr path) (JStr k) ?m) (\<lambda>a.
              io_bind (check_description_for_method_parameters (JStr path) (JStr k) ?m) (\<lambda>b.
              io_bind (check_description_for_method_responses (JStr path) (JStr k) ?m) (\<lambda>c.
              io_return (0 + a + b + c)))))"
    using key_present [OF assms(1)] by (simp add: check_method_def)
  also have "\<dots> = ((if verbose \<noteq> None then [S ''        checking method '' @ k] else [])
              @ method_diagnostics path k ?m, Inr (method_failures path k ?m))"
    by (subst a, subst b, subst c)
       (simp add: method_diagnostics_def method_failures_def)
  finally show ?thesis .
qed


lemma check_path_returns:
  assumes "list_all (\<lambda>k. validators_return path k (operation_of ms k)) (map fst ms)"
  shows "res (check_path (JStr path) (JObj ms) verbose) =
           Inr (sum_list (map (\<lambda>k. method_failures path k (operation_of ms k)) (map fst ms)))"
    and "outp (check_path (JStr path) (JObj ms) None) =
           concat (map (\<lambda>k. method_diagnostics path k (operation_of ms k)) (map fst ms))"
proof -
  let ?g = "\<lambda>v method. check_method (JStr path) method (JObj ms) v"
  let ?keys = "map (\<lambda>kv. JStr (fst kv)) ms"
  have each: "?g v (JStr k) =
      ((if v \<noteq> None then [S ''        checking method '' @ k] else [])
         @ method_diagnostics path k (operation_of ms k),
       Inr (method_failures path k (operation_of ms k)))"
    if "k \<in> set (map fst ms)" for k v
    using that assms by (intro check_method_returns) (auto simp: list_all_iff)
  have all: "list_all (\<lambda>x. returns (?g v x)) ?keys" for v
    by (auto simp: list_all_iff each returns_def)
  have loop: "for_loop ?keys (\<lambda>method failures.
        io_bind (?g v method) (\<lambda>n. io_return (failures + n))) 0 =
      (concat (map (\<lambda>x. outp (?g v x)) ?keys), Inr (0 + sum_list (map (\<lambda>x. count (?g v x)) ?keys)))"
    for v
    by (rule for_loop_sum [OF all])
  have counts: "map (\<lambda>x. count (?g v x)) ?keys =
      map (\<lambda>k. method_failures path k (operation_of ms k)) (map fst ms)" for v
    by (auto simp: each count_def)
  have lines: "map (\<lambda>x. outp (?g None x)) ?keys =
      map (\<lambda>k. method_diagnostics path k (operation_of ms k)) (map fst ms)"
    by (auto simp: each)
  have loop_res: "res (for_loop ?keys (\<lambda>method failures.
        io_bind (?g v method) (\<lambda>n. io_return (failures + n))) 0) =
      Inr (sum_list (map (\<lambda>k. method_failures path k (operation_of ms k)) (map fst ms)))" for v
    unfolding loop counts by simp
  have loop_out: "outp (for_loop ?keys (\<lambda>method failures.
        io_bind (?g None method) (\<lambda>n. io_return (failures + n))) 0) =
      concat (map (\<lambda>k. method_diagnostics path k (operation_of ms k)) (map fst ms))"
    unfolding loop lines by simp
  show "res (check_path (JStr path) (JObj ms) verbose) =
      Inr (sum_list (map (\<lambda>k. method_failures path k (operation_of ms k)) (map fst ms)))"
    by (simp add: check_path_def loop_res res_io_bind split: sum.splits)
  show "outp (check_path (JStr path) (JObj ms) None) =
      concat (map (\<lambda>k. method_diagnostics path k (operation_of ms k)) (map fst ms))"
    by (simp add: check_path_def loop_out)
qed

text \<open>What \<open>paths_checkable\<close> says of one path key.\<close>

lemma path_present:
  assumes "paths_checkable ps" and "p \<in> set (map fst ps)"
  shows "map_of ps p = Some (JObj (methods_of ps p))"
    and "list_all (\<lambda>k. validators_return p k (operation_of (methods_of ps p) k))
           (map fst (methods_of ps p))"
proof -
  from assms have *: "(case map_of ps p of
          Some (JObj ms) \<Rightarrow>
            list_all (\<lambda>method. validators_return p method (operation_of ms method)) (map fst ms)
        | _ \<Rightarrow> False)"
    by (auto simp: paths_checkable_def list_all_iff)
  then obtain v where v: "map_of ps p = Some v"
    by (cases "map_of ps p") simp_all
  with * obtain ms where "v = JObj ms"
    by (cases v) simp_all
  with v * show "map_of ps p = Some (JObj (methods_of ps p))"
    and "list_all (\<lambda>k. validators_return p k (operation_of (methods_of ps p) k))
           (map fst (methods_of ps p))"
    by (simp_all add: methods_of_def)
qed


lemmas validator_defs =
  check_description_for_method_def check_description_for_method_parameters_def
  check_description_for_method_responses_def parameter_body_def response_body_def
  empty_attribute_def



section \<open>One file: \<^verbatim>\<open>check_openapi_json\<close>\<close>

text \<open>
  The only file \<^verbatim>\<open>check_openapi_json\<close> asks for is \<open>openapi_filename directory\<close>,
  the directory argument with \<^verbatim>\<open>openapi.json\<close> appended.
\<close>

lemma opened_file_only:
  "check_openapi_json opn load verbose directory =
   check_openapi_json (\<lambda>_. opn (openapi_filename directory)) load verbose directory"
  by (simp add: check_openapi_json_def)



text \<open>
  A document that is \<^verbatim>\<open>null\<close> never yields a pair: after the info check,
  \<^verbatim>\<open>check_all_paths\<close> subscripts \<^verbatim>\<open>None\<close>.
\<close>

lemma null_document_no_pair:
  assumes "opn (openapi_filename directory) = Inr fin" and "load fin = Inr JNull"
  shows "res (check_openapi_json opn load verbose directory) = Inl TypeError"
  using assms
  by (simp add: check_openapi_json_def Let_def io_lift_def check_info_node_def
      check_all_paths_def except_ValueError_def io_defs)

text \<open>
  Claim C7. The claim wants a file holding \<^verbatim>\<open>null\<close> to cost one failure and
  \<^verbatim>\<open>check_openapi_json\<close> to return its pair. The code does the first half only:
  \<^verbatim>\<open>check_info_node\<close> tests \<^verbatim>\<open>obj is None\<close>, prints
  \<^verbatim>\<open>Empty object has been deserialized\<close> and returns 1, but \<^verbatim>\<open>check_all_paths\<close> is
  then called on the same \<^verbatim>\<open>None\<close> and subscripts it. The \<^verbatim>\<open>TypeError\<close> is not a
  \<^verbatim>\<open>ValueError\<close>, so it leaves \<^verbatim>\<open>check_openapi_json\<close> and no pair is returned.
\<close>

theorem null_document_escapes:
  "check_openapi_json (one_file (S ''./openapi.json'') JNull) Inr None (S ''./'') =
     ([S ''Empty object has been deserialized''], Inl TypeError)"
  by (simp add: check_openapi_json_def check_info_node_def check_all_paths_def
      except_ValueError_def one_file_def openapi_filename_def io_defs S_def)

text \<open>
  Claim C10. The claim wants the file \<^verbatim>\<open>openapi.json\<close> inside the directory given.
  The code appends the file name to the argument with no separator, so for the
  directory \<^verbatim>\<open>docs\<close> it opens \<^verbatim>\<open>docsopenapi.json\<close>: with a valid
  \<^verbatim>\<open>docs/openapi.json\<close> in place and nothing else, opening fails.
\<close>

theorem directory_without_slash:
  "openapi_filename (S ''docs'') = S ''docsopenapi.json'' \<and>
   openapi_filename (S ''docs'') \<noteq> S ''docs/openapi.json'' \<and>
   check_openapi_json (one_file (S ''docs/openapi.json'') doc_ok) Inr None (S ''docs'') =
     ([], Inl OSError)"
  by (simp add: check_openapi_json_def one_file_def openapi_filename_def io_defs S_def)

text \<open>
  Claim C1, as the code has it. The claim promises the pair for every document that
  parses; the code returns it when both checks return. Then the failures are the sum
  of the two results and there is one pass exactly when the sum is zero.
\<close>

theorem parsed_document_totals:
  assumes "opn (openapi_filename directory) = Inr fin"
    and "load fin = Inr obj"
    and "res (check_info_node obj verbose) = Inr a"
    and "res (check_all_paths obj verbose) = Inr b"
  shows "res (check_openapi_json opn load verbose directory) =
           Inr (if a + b = 0 then 1 else 0, a + b)"
proof -
  obtain out1 where info: "check_info_node obj verbose = (out1, Inr a)"
    using assms(3) by (cases "check_info_node obj verbose") simp
  obtain out2 where paths: "check_all_paths obj verbose = (out2, Inr b)"
    using assms(4) by (cases "check_all_paths obj verbose") simp
  show ?thesis
    using assms(1,2)
    by (simp add: check_openapi_json_def Let_def io_lift_def io_bind_value
        except_ValueError_value [where out = "[]"]
        except_ValueError_value [OF info] except_ValueError_value [OF paths])
qed

text \<open>
  Scenario A of the specification: one pass, no failure. Scenario C, extended: three
  failures, no pass.
\<close>

theorem parsed_document_totals_witness:
  "res (check_openapi_json (one_file (S ''./openapi.json'') doc_ok) Inr (Some True) (S ''./''))
     = Inr (1, 0) \<and>
   res (check_openapi_json (one_file (S ''./openapi.json'') doc_scenario_C) Inr None (S ''./''))
     = Inr (0, 3)"
  using parsed_document_totals
    [of "one_file (S ''./openapi.json'') doc_ok" "S ''./''" doc_ok Inr doc_ok "Some True" 0 0]
    parsed_document_totals
    [of "one_file (S ''./openapi.json'') doc_scenario_C" "S ''./''" doc_scenario_C Inr
        doc_scenario_C None 0 3]
  by (simp add: doc_ok_def doc_scenario_C_def op_scenario_C_def one_file_def
      openapi_filename_def check_info_node_def check_all_paths_def check_path_def
      check_method_def validator_defs strip_def isspace_def res_io_bind S_def)

text \<open>
  Claim C1 as stated fails on \<^verbatim>\<open>{"info": {"description": "ok"}}\<close>: the text parses,
  the info node is in order, \<^verbatim>\<open>check_all_paths\<close> raises \<^verbatim>\<open>KeyError\<close> and no pair
  is returned.
\<close>

theorem parsed_document_without_pair:
  "res (check_openapi_json (one_file (S ''./openapi.json'') doc_without_paths) Inr None (S ''./''))
     = Inl (KeyError (JStr (S ''paths'')))"
  by (simp add: check_openapi_json_def check_info_node_def check_all_paths_def
      empty_attribute_def strip_def isspace_def doc_without_paths_def
      except_ValueError_def one_file_def openapi_filename_def io_defs S_def)

text \<open>The first thing \<^verbatim>\<open>check_all_paths\<close> does with the document is \<^verbatim>\<open>obj["paths"]\<close>.\<close>

lemma check_all_paths_missing:
  "map_of kvs (S ''paths'') = None \<Longrightarrow>
   res (check_all_paths (JObj kvs) verbose) = Inl (KeyError (JStr (S ''paths'')))"
  by (simp add: check_all_paths_def res_io_bind)

text \<open>
  Claim C9. For a document whose root mapping has no key \<^verbatim>\<open>paths\<close>,
  \<^verbatim>\<open>check_all_paths\<close> raises \<^verbatim>\<open>KeyError\<close> for that key;
  \<^verbatim>\<open>check_openapi_json\<close> returns no pair on it, and what leaves it is that
  \<^verbatim>\<open>KeyError\<close>, unless the info check has raised before, in which case its
  exception leaves instead.
\<close>

theorem missing_paths_escapes:
  assumes "map_of kvs (S ''paths'') = None"
    and "opn (openapi_filename directory) = Inr fin"
    and "load fin = Inr (JObj kvs)"
  shows "res (check_all_paths (JObj kvs) verbose) = Inl (KeyError (JStr (S ''paths''))) \<and>
         (\<forall>passes failures.
            res (check_openapi_json opn load verbose directory) \<noteq> Inr (passes, failures)) \<and>
         res (check_openapi_json opn load verbose directory) =
           (case res (check_info_node (JObj kvs) verbose) of
              Inl e \<Rightarrow> Inl e
            | Inr n \<Rightarrow> Inl (KeyError (JStr (S ''paths''))))"
proof -
  let ?f = "openapi_filename directory"
  have paths: "res (check_all_paths (JObj kvs) verbose) = Inl (KeyError (JStr (S ''paths'')))"
    using assms(1) by (rule check_all_paths_missing)
  define rest where
    "rest = except_ValueError ?f 0 0 (check_info_node (JObj kvs) verbose)
          (\<lambda>a. except_ValueError ?f 0 (0 + a) (check_all_paths (JObj kvs) verbose)
            (\<lambda>b. io_return (if 0 + a + b = 0 then 0 + 1 else 0, 0 + a + b)))"
  have start: "res (check_openapi_json opn load verbose directory) = res rest"
    using assms(2,3)
    by (simp add: check_openapi_json_def Let_def io_lift_def io_bind_value
        except_ValueError_value [where out = "[]"] rest_def)
  have escape: "res (check_openapi_json opn load verbose directory) =
      (case res (check_info_node (JObj kvs) verbose) of
         Inl e \<Rightarrow> Inl e | Inr n \<Rightarrow> Inl (KeyError (JStr (S ''paths''))))"
  proof (cases "check_info_node (JObj kvs) verbose")
    case (Pair out r)
    show ?thesis
    proof (cases r)
      case (Inl e)
      have "\<forall>msg. e \<noteq> ValueError msg"
        using no_ValueError_info [of "JObj kvs" verbose] Pair Inl by auto
      then show ?thesis using Pair Inl
        by (simp add: start rest_def except_ValueError_escapes)
    next
      case (Inr n)
      obtain out' where
        "check_all_paths (JObj kvs) verbose = (out', Inl (KeyError (JStr (S ''paths''))))"
        using paths by (cases "check_all_paths (JObj kvs) verbose") simp
      then show ?thesis using Pair Inr
        by (simp add: start rest_def except_ValueError_value except_ValueError_escapes)
    qed
  qed
  have "\<forall>passes failures.
      res (check_openapi_json opn load verbose directory) \<noteq> Inr (passes, failures)"
    by (simp add: escape split: sum.splits)
  with paths escape show ?thesis by blast
qed

theorem missing_paths_escapes_witness:
  "res (check_all_paths doc_without_paths None) = Inl (KeyError (JStr (S ''paths''))) \<and>
   res (check_openapi_json (one_file (S ''./openapi.json'') doc_without_paths) Inr None (S ''./''))
     = Inl (KeyError (JStr (S ''paths'')))"
  using missing_paths_escapes
    [of "[(S ''info'', JObj [(S ''description'', JStr (S ''ok''))])]"
        "one_file (S ''./openapi.json'') doc_without_paths" "S ''./''" doc_without_paths Inr None]
  by (simp add: doc_without_paths_def one_file_def openapi_filename_def check_info_node_def
      empty_attribute_def strip_def isspace_def S_def)

section \<open>The counters are never negative\<close>

text \<open>
  Every loop starts at 0 and a turn adds 0 or 1, so whatever the document, a count
  that is returned is not negative, and neither is a counter in the pair of
  \<^verbatim>\<open>check_openapi_json\<close>: the report is only ever asked about such pairs.
\<close>

lemma for_loop_grows:
  assumes "\<And>x f n. res (body x f) = Inr n \<Longrightarrow> f \<le> n"
  shows "res (for_loop xs body failures) = Inr n \<Longrightarrow> failures \<le> n"
proof (induction xs arbitrary: failures)
  case Nil
  then show ?case by simp
next
  case (Cons x xs)
  from Cons.prems obtain f1 where "res (body x failures) = Inr f1"
    and "res (for_loop xs body f1) = Inr n"
    by (auto simp: res_io_bind split: sum.splits)
  with assms Cons.IH show ?case by fastforce
qed

lemma response_body_grows:
  "res (response_body path method responses response failures) = Inr n \<Longrightarrow> failures \<le> n"
  by (auto simp: response_body_def res_io_bind split: sum.splits if_splits)

lemma parameter_body_grows:
  "res (parameter_body path method parameter failures) = Inr n \<Longrightarrow> failures \<le> n"
  by (auto simp: parameter_body_def res_io_bind split: sum.splits if_splits)

lemma description_count: "res (check_description_for_method path method m) = Inr n \<Longrightarrow> 0 \<le> n"
  by (auto simp: check_description_for_method_def res_io_bind split: sum.splits if_splits)

lemma parameters_count:
  assumes "res (check_description_for_method_parameters path method m) = Inr n"
  shows "0 \<le> n"
proof -
  have loop: "res (for_loop ps (parameter_body path method) 0) = Inr n \<Longrightarrow> 0 \<le> n" for ps
    by (rule for_loop_grows [OF parameter_body_grows])
  from assms show ?thesis
    by (auto simp: check_description_for_method_parameters_def res_io_bind
        split: sum.splits if_splits dest: loop)
qed

lemma responses_count:
  assumes "res (check_description_for_method_responses path method m) = Inr n"
  shows "0 \<le> n"
proof -
  have loop: "res (for_loop rs (response_body path method responses) 0) = Inr n \<Longrightarrow> 0 \<le> n"
    for rs responses
    by (rule for_loop_grows [OF response_body_grows])
  from assms show ?thesis
    by (auto simp: check_description_for_method_responses_def res_io_bind
        split: sum.splits if_splits dest: loop)
qed

lemma method_count: "res (check_method path method methods verbose) = Inr n \<Longrightarrow> 0 \<le> n"
  by (auto simp: check_method_def res_io_bind split: sum.splits if_splits
      dest!: description_count parameters_count responses_count)

lemma path_count:
  assumes "res (check_path path methods verbose) = Inr n"
  shows "0 \<le> n"
proof -
  have body: "res (io_bind (check_method path x methods v) (\<lambda>n. io_return (f + n))) = Inr k
      \<Longrightarrow> f \<le> k" for x f k v
    by (auto simp: res_io_bind split: sum.splits dest!: method_count)
  have loop: "res (for_loop ms (\<lambda>method failures.
        io_bind (check_method path method methods v) (\<lambda>n. io_return (failures + n))) 0)
      = Inr n \<Longrightarrow> 0 \<le> n" for ms v
    by (rule for_loop_grows [OF body])
  from assms show ?thesis
    by (auto simp: check_path_def res_io_bind split: sum.splits if_splits dest: loop)
qed

lemma all_paths_count:
  assumes "res (check_all_paths obj verbose) = Inr n"
  shows "0 \<le> n"
proof -
  have body: "res (io_bind (py_getitem paths x) (\<lambda>methods.
        io_bind (check_path x methods v) (\<lambda>n. io_return (f + n)))) = Inr k
      \<Longrightarrow> f \<le> k" for paths x f k v
    by (auto simp: res_io_bind split: sum.splits dest!: path_count)
  have loop: "res (for_loop ps (\<lambda>path failures. io_bind (py_getitem paths path) (\<lambda>methods.
        io_bind (check_path path methods v) (\<lambda>n. io_return (failures + n)))) 0)
      = Inr n \<Longrightarrow> 0 \<le> n" for ps paths v
    by (rule for_loop_grows [OF body])
  from assms show ?thesis
    by (auto simp: check_all_paths_def res_io_bind split: sum.splits if_splits dest: loop)
qed

lemma res_except_ValueError:
  "res (except_ValueError filename passes failures stmt rest) =
     (case res stmt of
        Inl (ValueError e) \<Rightarrow> Inr (passes, failures + 1)
      | Inl err \<Rightarrow> Inl err
      | Inr x \<Rightarrow> res (rest x))"
  by (cases stmt)
     (auto simp: except_ValueError_def split: sum.splits py_error.splits prod.splits)

lemma counters_not_negative:
  assumes "res (check_openapi_json opn load verbose directory) = Inr (passes, failures)"
  shows "0 \<le> passes \<and> 0 \<le> failures"
  using assms
  by (auto simp: check_openapi_json_def Let_def res_io_bind res_except_ValueError io_lift_def
      split: sum.splits py_error.splits if_splits
      dest!: check_info_node_range all_paths_count)

section \<open>The report: \<^verbatim>\<open>display_report\<close>\<close>

text \<open>
  The three candidate lines end differently, whatever the control codes are, so the
  first line printed tells the outcome.
\<close>

lemma warn_fail: "warn_line pr nc \<noteq> fail_line pr nc"
proof
  assume "warn_line pr nc = fail_line pr nc"
  then have "take 10 (rev (warn_line pr nc)) = take 10 (rev (fail_line pr nc))" by simp
  then show False
    by (simp add: warn_line_def fail_line_def S_def)
qed

lemma warn_ok: "warn_line pr nc \<noteq> ok_line pr nc"
proof
  assume "warn_line pr nc = ok_line pr nc"
  then have "take 10 (rev (warn_line pr nc)) = take 10 (rev (ok_line pr nc))" by simp
  then show False
    by (simp add: warn_line_def ok_line_def S_def)
qed

lemma ok_fail: "ok_line pr nc \<noteq> fail_line pr nc"
proof
  assume "ok_line pr nc = fail_line pr nc"
  then have "take 20 (rev (ok_line pr nc)) = take 20 (rev (fail_line pr nc))" by simp
  then show False
    by (simp add: fail_line_def ok_line_def S_def)
qed

lemma display_report_lines:
  "display_report pr passes failures nc =
     ([if failures = 0 then (if passes = 0 then warn_line pr nc else ok_line pr nc)
       else fail_line pr nc,
       str_int passes @ S '' passes'', str_int failures @ S '' failures''], Inr ())"
  by (simp add: display_report_def Let_def warn_line_def ok_line_def fail_line_def
      color_code_def)

text \<open>
  Claim C6. For counters \<open>passes\<close> and \<open>failures\<close> (integers that are not
  negative, as \<^verbatim>\<open>check_openapi_json\<close> returns them), \<^verbatim>\<open>display_report\<close> prints
  three lines: one banner, then \<^verbatim>\<open><passes> passes\<close> and \<^verbatim>\<open><failures> failures\<close>.
  The banner is the WARN line exactly when both counters are zero, the OK line exactly
  when there is at least one pass and no failure, and the FAIL line exactly when there
  is a failure.
\<close>

theorem display_report_classification:
  "\<exists>banner.
     display_report popen_readline (int passes) (int failures) nocolors =
       ([banner, str_int (int passes) @ S '' passes'',
         str_int (int failures) @ S '' failures''], Inr ()) \<and>
     (banner = warn_line popen_readline nocolors) = (passes = 0 \<and> failures = 0) \<and>
     (banner = ok_line popen_readline nocolors) = (1 \<le> passes \<and> failures = 0) \<and>
     (banner = fail_line popen_readline nocolors) = (0 < failures)"
  using warn_fail [of popen_readline nocolors] warn_ok [of popen_readline nocolors]
    ok_fail [of popen_readline nocolors]
  by (auto simp: display_report_lines)

text \<open>Scenario A, colours off: the report of one pass and no failure.\<close>

lemma display_report_scenario_A:
  "display_report popen_readline 1 0 (Some True) =
     ([S ''[OK]: OpenAPI file seems to have proper format and content'',
       S ''1 passes'', S ''0 failures''], Inr ())"
  by (simp add: display_report_lines ok_line_def color_code_def truthy_def str_int_def
      S_def digits.simps)

end
